theory Spec2Isabelle
  imports Main
begin

section \<open>Data model\<close>

text \<open>
  \<^verbatim>\<open>WSConnectionStatus\<close> of \<^verbatim>\<open>@/types\<close>, as the object literals of
  \<^verbatim>\<open>frontend/src/utils/websocket.ts\<close> build it: two booleans and an optional error text.
\<close>

record WSConnectionStatus =
  connected :: bool
  reconnecting :: bool
  error :: "string option"

text \<open>
  A JavaScript string is a sequence of UTF-16 code units. The text a user types (a console
  command, and what is built from it) is kept as the list of its code units, since
  \<^verbatim>\<open>String.prototype.trim\<close> looks at code units beyond ASCII; \<open>js\<close> gives the code units of
  an ASCII literal. Tags, timestamps and fixed messages, which the code only copies, are
  plain strings.
\<close>

type_synonym jstring = "nat list"

definition js :: "string \<Rightarrow> jstring" where
  "js s = map of_char s"

text \<open>
  \<^verbatim>\<open>WSMessage\<close> and \<^verbatim>\<open>ConsoleMessage\<close>: a type tag, a timestamp and a payload. The console
  view reads \<^verbatim>\<open>data.level\<close>, \<^verbatim>\<open>data.source\<close> and \<^verbatim>\<open>data.message\<close> of a console message; any
  other payload is opaque.
\<close>

datatype payload =
  ConsoleData (level: string) (source: string) (message: jstring)
| Opaque string

record WSMessage =
  msg_type :: string
  timestamp :: string
  data :: payload

type_synonym ConsoleMessage = WSMessage

text \<open>The objects that \<^verbatim>\<open>send\<close> serialises: the command frame, the ping frame, anything else.\<close>

datatype frame =
  CommandFrame jstring string
| PingFrame string
| OtherFrame string

subsection \<open>The browser's WebSocket\<close>

datatype readyState = CONNECTING | OPEN | CLOSING | CLOSED

text \<open>
  Every \<^verbatim>\<open>connect()\<close> call returns a promise of its own, settled by the handlers it installs
  on the socket it creates; the socket record carries the state of that promise.
\<close>

datatype promise = Pending | Resolved | Rejected

record WebSocket =
  readyState :: readyState
  promise :: promise
  sent :: "frame list"
  close_calls :: "(nat \<times> string) list"

definition new_WebSocket :: WebSocket where
  "new_WebSocket = \<lparr>readyState = CONNECTING, promise = Pending, sent = [], close_calls = []\<rparr>"

definition live :: "WebSocket \<Rightarrow> bool" where
  "live sock = (readyState sock = CONNECTING \<or> readyState sock = OPEN)"

subsection \<open>Handlers\<close>

text \<open>
  A handler is a closure: when called, it changes the state \<open>'w\<close> it closes over and either
  returns (\<open>None\<close>) or throws (\<open>Some e\<close>). Handlers that change the registry they are called
  from are outside this model.
\<close>

type_synonym ('a, 'w) handler = "'a \<Rightarrow> 'w \<Rightarrow> 'w \<times> string option"

text \<open>
  \<^verbatim>\<open>Array.prototype.forEach\<close>: the callback runs on each element in index order; a callback
  that throws ends the iteration and the exception reaches the caller of \<^verbatim>\<open>forEach\<close>.
\<close>

fun forEach :: "('h \<Rightarrow> 'st \<Rightarrow> 'st \<times> string option) \<Rightarrow> 'h list \<Rightarrow> 'st \<Rightarrow> 'st \<times> string option" where
  "forEach f [] st = (st, None)"
| "forEach f (h # hs) st =
     (case f h st of
        (st', Some e) \<Rightarrow> (st', Some e)
      | (st', None) \<Rightarrow> forEach f hs st')"

text \<open>
  The callback of both dispatch loops:
  \<^verbatim>\<open>try { handler(x) } catch (error) { console.error(label, error) }\<close>.
  The state is the handlers' world together with the console's error lines.
\<close>

definition guarded ::
  "string \<Rightarrow> 'a \<Rightarrow> ('a, 'w) handler \<Rightarrow> 'w \<times> string list \<Rightarrow> ('w \<times> string list) \<times> string option" where
  "guarded label x h st =
     (case st of (w, con) \<Rightarrow>
        (case h x w of
           (w', None) \<Rightarrow> ((w', con), None)
         | (w', Some e) \<Rightarrow> ((w', con @ [label @ e]), None)))"

definition dispatch ::
  "string \<Rightarrow> ('a, 'w) handler list \<Rightarrow> 'a \<Rightarrow> 'w \<times> string list \<Rightarrow> ('w \<times> string list) \<times> string option" where
  "dispatch label hs x st = forEach (guarded label x) hs st"

section \<open>WebSocketClient\<close>

text \<open>
  The fields of the class, followed by what the class acts on in the browser: whether the
  \<^verbatim>\<open>WebSocket\<close> constructor throws for \<^verbatim>\<open>url\<close>, the sockets created so far (a socket is named by
  its index), the delays of the pending \<^verbatim>\<open>setTimeout\<close> callbacks of \<^verbatim>\<open>attemptReconnect\<close>, the
  state the registered handlers close over, and the lines written by \<^verbatim>\<open>console.error\<close> and
  \<^verbatim>\<open>console.warn\<close> (\<^verbatim>\<open>console.log\<close> is not modelled).
\<close>

record 'w WebSocketClient =
  ws :: "nat option"
  url :: string
  reconnectAttempts :: nat
  messageHandlers :: "(WSMessage, 'w) handler list"
  connectionHandlers :: "(WSConnectionStatus, 'w) handler list"
  connectionStatus :: WSConnectionStatus
  urlRejected :: bool
  sockets :: "WebSocket list"
  timers :: "nat list"
  world :: 'w
  console :: "string list"

definition maxReconnectAttempts :: nat where
  "maxReconnectAttempts = 5"

definition reconnectDelay :: nat where
  "reconnectDelay = 1000"

definition WebSocketClient_new :: "string \<Rightarrow> bool \<Rightarrow> 'w \<Rightarrow> 'w WebSocketClient" where
  "WebSocketClient_new u rejected w =
     \<lparr>ws = None, url = u, reconnectAttempts = 0, messageHandlers = [], connectionHandlers = [],
      connectionStatus = \<lparr>connected = False, reconnecting = False, error = None\<rparr>,
      urlRejected = rejected, sockets = [], timers = [], world = w, console = []\<rparr>"

definition updateConnectionStatus ::
  "WSConnectionStatus \<Rightarrow> ('w, 'z) WebSocketClient_scheme \<Rightarrow> ('w, 'z) WebSocketClient_scheme" where
  "updateConnectionStatus status c =
     (let c1 = c\<lparr>connectionStatus := status\<rparr>;
          r = fst (dispatch ''Error in connection handler: '' (connectionHandlers c1)
                     (connectionStatus c1) (world c1, console c1))
      in c1\<lparr>world := fst r, console := snd r\<rparr>)"

definition handleMessage ::
  "WSMessage \<Rightarrow> ('w, 'z) WebSocketClient_scheme \<Rightarrow> ('w, 'z) WebSocketClient_scheme" where
  "handleMessage m c =
     (let r = fst (dispatch ''Error in message handler: '' (messageHandlers c) m (world c, console c))
      in c\<lparr>world := fst r, console := snd r\<rparr>)"

text \<open>Settling the promise of the \<^verbatim>\<open>connect()\<close> call that created socket \<open>i\<close>: only the first call counts.\<close>

definition settle ::
  "nat \<Rightarrow> promise \<Rightarrow> ('w, 'z) WebSocketClient_scheme \<Rightarrow> ('w, 'z) WebSocketClient_scheme" where
  "settle i p c =
     (if i < length (sockets c) \<and> promise (sockets c ! i) = Pending
      then c\<lparr>sockets := (sockets c)[i := (sockets c ! i)\<lparr>promise := p\<rparr>]\<rparr>
      else c)"

definition connect :: "('w, 'z) WebSocketClient_scheme \<Rightarrow> ('w, 'z) WebSocketClient_scheme" where
  "connect c =
     (let c1 = updateConnectionStatus \<lparr>connected = False, reconnecting = True, error = None\<rparr> c
      in if urlRejected c1
         then updateConnectionStatus
                \<lparr>connected = False, reconnecting = False,
                 error = Some ''Failed to create WebSocket connection''\<rparr> c1
         else c1\<lparr>ws := Some (length (sockets c1)), sockets := sockets c1 @ [new_WebSocket]\<rparr>)"

definition onopen :: "nat \<Rightarrow> ('w, 'z) WebSocketClient_scheme \<Rightarrow> ('w, 'z) WebSocketClient_scheme" where
  "onopen i c =
     settle i Resolved
       (updateConnectionStatus \<lparr>connected = True, reconnecting = False, error = None\<rparr>
          (c\<lparr>reconnectAttempts := 0\<rparr>))"

text \<open>\<^verbatim>\<open>JSON.parse(event.data)\<close> either gives a message or throws (\<open>None\<close>).\<close>

definition onmessage ::
  "WSMessage option \<Rightarrow> ('w, 'z) WebSocketClient_scheme \<Rightarrow> ('w, 'z) WebSocketClient_scheme" where
  "onmessage parsed c =
     (case parsed of
        Some m \<Rightarrow> handleMessage m c
      | None \<Rightarrow> c\<lparr>console := console c @ [''Failed to parse WebSocket message:'']\<rparr>)"

definition attemptReconnect :: "('w, 'z) WebSocketClient_scheme \<Rightarrow> ('w, 'z) WebSocketClient_scheme" where
  "attemptReconnect c =
     (if reconnectAttempts c \<ge> maxReconnectAttempts
      then updateConnectionStatus
             \<lparr>connected = False, reconnecting = False,
              error = Some ''Max reconnection attempts reached''\<rparr>
             (c\<lparr>console := console c @ [''Max reconnection attempts reached'']\<rparr>)
      else
        (let c1 = c\<lparr>reconnectAttempts := reconnectAttempts c + 1\<rparr>;
             delay = reconnectDelay * 2 ^ (reconnectAttempts c1 - 1);
             c2 = updateConnectionStatus \<lparr>connected = False, reconnecting = True, error = None\<rparr> c1
         in c2\<lparr>timers := timers c2 @ [delay]\<rparr>))"

definition onclose :: "nat \<Rightarrow> ('w, 'z) WebSocketClient_scheme \<Rightarrow> ('w, 'z) WebSocketClient_scheme" where
  "onclose code c =
     (let c1 = updateConnectionStatus \<lparr>connected = False, reconnecting = False, error = None\<rparr> c
      in if code \<noteq> 1000 \<and> reconnectAttempts c1 < maxReconnectAttempts
         then attemptReconnect c1
         else c1)"

definition onerror :: "nat \<Rightarrow> ('w, 'z) WebSocketClient_scheme \<Rightarrow> ('w, 'z) WebSocketClient_scheme" where
  "onerror i c =
     settle i Rejected
       (updateConnectionStatus
          \<lparr>connected = False, reconnecting = False, error = Some ''Connection error''\<rparr>
          (c\<lparr>console := console c @ [''WebSocket error:'']\<rparr>))"

text \<open>
  \<^verbatim>\<open>ws.close(code, reason)\<close> in the browser: nothing on a socket that is closing or closed,
  otherwise the closing handshake starts.
\<close>

definition ws_close :: "nat \<Rightarrow> string \<Rightarrow> WebSocket \<Rightarrow> WebSocket" where
  "ws_close code reason sock =
     sock\<lparr>close_calls := close_calls sock @ [(code, reason)],
          readyState := (if live sock then CLOSING else readyState sock)\<rparr>"

definition disconnect :: "('w, 'z) WebSocketClient_scheme \<Rightarrow> ('w, 'z) WebSocketClient_scheme" where
  "disconnect c =
     updateConnectionStatus \<lparr>connected = False, reconnecting = False, error = None\<rparr>
       (case ws c of
          Some i \<Rightarrow> c\<lparr>sockets := (sockets c)[i := ws_close 1000 ''Manual disconnect'' (sockets c ! i)],
                      ws := None\<rparr>
        | None \<Rightarrow> c)"

definition send :: "frame \<Rightarrow> ('w, 'z) WebSocketClient_scheme \<Rightarrow> ('w, 'z) WebSocketClient_scheme" where
  "send f c =
     (case ws c of
        Some i \<Rightarrow>
          if readyState (sockets c ! i) = OPEN
          then c\<lparr>sockets := (sockets c)[i := (sockets c ! i)\<lparr>sent := sent (sockets c ! i) @ [f]\<rparr>]\<rparr>
          else c\<lparr>console := console c @ [''WebSocket is not connected, cannot send message'']\<rparr>
      | None \<Rightarrow> c\<lparr>console := console c @ [''WebSocket is not connected, cannot send message'']\<rparr>)"

text \<open>\<open>now\<close> is the value of \<^verbatim>\<open>new Date().toISOString()\<close> at the call.\<close>

definition sendCommand :: "jstring \<Rightarrow> string \<Rightarrow> ('w, 'z) WebSocketClient_scheme \<Rightarrow> ('w, 'z) WebSocketClient_scheme" where
  "sendCommand command now c = send (CommandFrame command now) c"

definition ping :: "string \<Rightarrow> ('w, 'z) WebSocketClient_scheme \<Rightarrow> ('w, 'z) WebSocketClient_scheme" where
  "ping now c = send (PingFrame now) c"

definition onMessage ::
  "(WSMessage, 'w) handler \<Rightarrow> ('w, 'z) WebSocketClient_scheme \<Rightarrow> ('w, 'z) WebSocketClient_scheme" where
  "onMessage h c = c\<lparr>messageHandlers := messageHandlers c @ [h]\<rparr>"

definition onConnectionChange ::
  "(WSConnectionStatus, 'w) handler \<Rightarrow> ('w, 'z) WebSocketClient_scheme \<Rightarrow> ('w, 'z) WebSocketClient_scheme" where
  "onConnectionChange h c = c\<lparr>connectionHandlers := connectionHandlers c @ [h]\<rparr>"

definition getConnectionStatus :: "('w, 'z) WebSocketClient_scheme \<Rightarrow> WSConnectionStatus" where
  "getConnectionStatus c = connectionStatus c"

definition isConnected :: "('w, 'z) WebSocketClient_scheme \<Rightarrow> bool" where
  "isConnected c = connected (connectionStatus c)"

subsection \<open>Events\<close>

text \<open>
  The class runs in the browser's single-threaded event loop: one step is a call of a public
  method or one callback. A socket's \<^verbatim>\<open>open\<close> event fires only while it is connecting and
  makes it open; \<^verbatim>\<open>message\<close> needs an open socket; \<^verbatim>\<open>close\<close> fires once, with the close
  code the transport reports; a pending timeout fires once and calls \<^verbatim>\<open>this.connect()\<close>.
  The handlers installed by \<^verbatim>\<open>connect\<close> stay on a socket that \<^verbatim>\<open>this.ws\<close> no longer designates.
\<close>

datatype event =
  CallConnect
| CallDisconnect
| CallSend frame
| SockOpen nat
| SockMessage nat "WSMessage option"
| SockError nat
| SockClose nat nat
| TimerFire nat

definition set_readyState ::
  "nat \<Rightarrow> readyState \<Rightarrow> ('w, 'z) WebSocketClient_scheme \<Rightarrow> ('w, 'z) WebSocketClient_scheme" where
  "set_readyState i r c = c\<lparr>sockets := (sockets c)[i := (sockets c ! i)\<lparr>readyState := r\<rparr>]\<rparr>"

definition fire_timer :: "nat \<Rightarrow> ('w, 'z) WebSocketClient_scheme \<Rightarrow> ('w, 'z) WebSocketClient_scheme" where
  "fire_timer k c = connect (c\<lparr>timers := take k (timers c) @ drop (Suc k) (timers c)\<rparr>)"

fun step :: "event \<Rightarrow> ('w, 'z) WebSocketClient_scheme \<Rightarrow> ('w, 'z) WebSocketClient_scheme" where
  "step CallConnect c = connect c"
| "step CallDisconnect c = disconnect c"
| "step (CallSend f) c = send f c"
| "step (SockOpen i) c =
     (if i < length (sockets c) \<and> readyState (sockets c ! i) = CONNECTING
      then onopen i (set_readyState i OPEN c) else c)"
| "step (SockMessage i parsed) c =
     (if i < length (sockets c) \<and> readyState (sockets c ! i) = OPEN
      then onmessage parsed c else c)"
| "step (SockError i) c =
     (if i < length (sockets c) \<and> readyState (sockets c ! i) \<noteq> CLOSED
      then onerror i c else c)"
| "step (SockClose i code) c =
     (if i < length (sockets c) \<and> readyState (sockets c ! i) \<noteq> CLOSED
      then onclose code (set_readyState i CLOSED c) else c)"
| "step (TimerFire k) c = (if k < length (timers c) then fire_timer k c else c)"

fun run :: "event list \<Rightarrow> ('w, 'z) WebSocketClient_scheme \<Rightarrow> ('w, 'z) WebSocketClient_scheme" where
  "run [] c = c"
| "run (e # es) c = run es (step e c)"

section \<open>AutoReconnectWebSocket\<close>

text \<open>
  The subclass adds the handle of its interval timer; an active interval is represented by
  its period. \<^verbatim>\<open>startPing\<close> clears the interval it holds before it sets a new one and
  nothing else sets one, so the handle designates the only interval of the client.
\<close>

record 'w AutoReconnectWebSocket = "'w WebSocketClient" +
  pingInterval :: "nat option"

definition pingIntervalMs :: nat where
  "pingIntervalMs = 30000"

definition AutoReconnectWebSocket_new :: "string \<Rightarrow> bool \<Rightarrow> 'w \<Rightarrow> 'w AutoReconnectWebSocket" where
  "AutoReconnectWebSocket_new u rejected w =
     WebSocketClient.extend (WebSocketClient_new u rejected w)
       (AutoReconnectWebSocket.fields None)"

definition stopPing :: "'w AutoReconnectWebSocket \<Rightarrow> 'w AutoReconnectWebSocket" where
  "stopPing c = (case pingInterval c of Some t \<Rightarrow> c\<lparr>pingInterval := None\<rparr> | None \<Rightarrow> c)"

definition startPing :: "'w AutoReconnectWebSocket \<Rightarrow> 'w AutoReconnectWebSocket" where
  "startPing c = (stopPing c)\<lparr>pingInterval := Some pingIntervalMs\<rparr>"

text \<open>The callback of the interval.\<close>

definition ping_tick :: "string \<Rightarrow> 'w AutoReconnectWebSocket \<Rightarrow> 'w AutoReconnectWebSocket" where
  "ping_tick now c = (if isConnected c then ping now c else c)"

text \<open>
  \<^verbatim>\<open>async connect() { await super.connect(); this.startPing() }\<close>: the call runs
  \<^verbatim>\<open>super.connect()\<close> and suspends; it resumes with \<^verbatim>\<open>startPing\<close> when the promise of that call
  is resolved, that is right after the \<^verbatim>\<open>onopen\<close> callback of the socket it created, and
  never if the promise is rejected. The timeout of \<^verbatim>\<open>attemptReconnect\<close> calls \<^verbatim>\<open>this.connect()\<close>,
  which is this method for an instance of the subclass.
\<close>

definition ar_connect :: "'w AutoReconnectWebSocket \<Rightarrow> 'w AutoReconnectWebSocket" where
  "ar_connect c = connect c"

definition ar_onopen :: "nat \<Rightarrow> 'w AutoReconnectWebSocket \<Rightarrow> 'w AutoReconnectWebSocket" where
  "ar_onopen i c =
     (let resolves = (i < length (sockets c) \<and> promise (sockets c ! i) = Pending);
          c1 = onopen i c
      in if resolves then startPing c1 else c1)"

definition ar_disconnect :: "'w AutoReconnectWebSocket \<Rightarrow> 'w AutoReconnectWebSocket" where
  "ar_disconnect c = disconnect (stopPing c)"

datatype ar_event = Base event | PingTick string | CallPing string

fun ar_step :: "ar_event \<Rightarrow> 'w AutoReconnectWebSocket \<Rightarrow> 'w AutoReconnectWebSocket" where
  "ar_step (Base CallConnect) c = ar_connect c"
| "ar_step (Base CallDisconnect) c = ar_disconnect c"
| "ar_step (Base (SockOpen i)) c =
     (if i < length (sockets c) \<and> readyState (sockets c ! i) = CONNECTING
      then ar_onopen i (set_readyState i OPEN c) else c)"
| "ar_step (Base (TimerFire k)) c =
     (if k < length (timers c)
      then ar_connect (c\<lparr>timers := take k (timers c) @ drop (Suc k) (timers c)\<rparr>) else c)"
| "ar_step (Base e) c = step e c"
| "ar_step (PingTick now) c = (if pingInterval c = None then c else ping_tick now c)"
| "ar_step (CallPing now) c = ping now c"

fun ar_run :: "ar_event list \<Rightarrow> 'w AutoReconnectWebSocket \<Rightarrow> 'w AutoReconnectWebSocket" where
  "ar_run [] c = c"
| "ar_run (e # es) c = ar_run es (ar_step e c)"

section \<open>The websocket store\<close>

text \<open>
  The console half of \<^verbatim>\<open>useWebSocketStore\<close>: the client of the console channel, the store's
  copy of its status (written by the connection handler the store registers) and the buffer
  of console messages. Toasts and the store's own console output are not modelled.
\<close>

record 'w websocket_store =
  consoleWs :: "'w AutoReconnectWebSocket option"
  consoleStatus :: WSConnectionStatus
  consoleMessages :: "ConsoleMessage list"

definition maxConsoleMessages :: nat where
  "maxConsoleMessages = 1000"


text \<open>\<^verbatim>\<open>push\<close>, then \<^verbatim>\<open>splice(0, length - maxConsoleMessages)\<close> when the length exceeds the cap.\<close>

definition addConsoleMessage :: "ConsoleMessage \<Rightarrow> 'w websocket_store \<Rightarrow> 'w websocket_store" where
  "addConsoleMessage m st =
     (let pushed = consoleMessages st @ [m]
      in if length pushed > maxConsoleMessages
         then st\<lparr>consoleMessages := drop (length pushed - maxConsoleMessages) pushed\<rparr>
         else st\<lparr>consoleMessages := pushed\<rparr>)"

definition clearConsoleMessages :: "'w websocket_store \<Rightarrow> 'w websocket_store" where
  "clearConsoleMessages st = st\<lparr>consoleMessages := []\<rparr>"


text \<open>A sequence of appends, as the message handler and the console view make them.\<close>

fun addConsoleMessages :: "ConsoleMessage list \<Rightarrow> 'w websocket_store \<Rightarrow> 'w websocket_store" where
  "addConsoleMessages [] st = st"
| "addConsoleMessages (m # ms) st = addConsoleMessages ms (addConsoleMessage m st)"

section \<open>The console view\<close>







section \<open>Runs and observations\<close>

text \<open>
  A reconnection attempt that fails: the pending timeout fires and calls \<^verbatim>\<open>connect()\<close>, which
  creates socket \<open>i\<close>; the socket never opens and closes with the given code, after an
  \<^verbatim>\<open>error\<close> event when the flag is set.
\<close>

fun failed_attempts :: "nat \<Rightarrow> (bool \<times> nat) list \<Rightarrow> event list" where
  "failed_attempts i [] = []"
| "failed_attempts i ((err, code) # rest) =
     TimerFire 0 # (if err then [SockError i] else []) @ SockClose i code
       # failed_attempts (Suc i) rest"

definition status_ok :: "WSConnectionStatus \<Rightarrow> bool" where
  "status_ok st = (\<not> (connected st \<and> reconnecting st))"

text \<open>The steps in which \<^verbatim>\<open>connect()\<close> runs: the explicit call and the timeout of a retry.\<close>

fun runs_connect :: "ar_event \<Rightarrow> bool" where
  "runs_connect (Base CallConnect) = True"
| "runs_connect (Base (TimerFire k)) = True"
| "runs_connect e = False"

text \<open>The errors thrown when the handlers are called one after the other on \<open>x\<close>.\<close>

fun thrown :: "('a, 'w) handler list \<Rightarrow> 'a \<Rightarrow> 'w \<Rightarrow> string list" where
  "thrown [] x w = []"
| "thrown (h # hs) x w =
     (case snd (h x w) of None \<Rightarrow> [] | Some e \<Rightarrow> [e]) @ thrown hs x (fst (h x w))"

text \<open>Handlers for concrete runs: one records what it is called with, one records and throws.\<close>

definition recorder :: "('a, 'a list) handler" where
  "recorder x w = (w @ [x], None)"

definition thrower :: "('a, 'a list) handler" where
  "thrower x w = (w @ [x], Some ''boom'')"

definition console_url :: string where
  "console_url = ''ws://localhost:3000/api/v1/console/ws''"

definition empty_store :: "unit websocket_store" where
  "empty_store =
     \<lparr>consoleWs = None,
      consoleStatus = \<lparr>connected = False, reconnecting = False, error = None\<rparr>,
      consoleMessages = []\<rparr>"

text \<open>The events of one failed attempt.\<close>

definition attempt_events :: "nat \<Rightarrow> bool \<times> nat \<Rightarrow> event list" where
  "attempt_events n a = TimerFire 0 # (if fst a then [SockError n] else []) @ [SockClose n (snd a)]"

text \<open>
  Concrete clients: one that records the statuses its connection handler receives; one with
  three message handlers, the second of which throws; one whose first connection closed
  abnormally, so that the first retry is pending; the same after five failed retries; one
  that is connected.
\<close>

definition observed_client :: "WSConnectionStatus list WebSocketClient" where
  "observed_client = onConnectionChange recorder (WebSocketClient_new console_url False [])"

definition hello :: WSMessage where
  "hello = \<lparr>msg_type = ''console_log'', timestamp = ''t'', data = ConsoleData ''INFO'' ''Server'' (js ''Hello'')\<rparr>"

definition three_handlers :: "WSMessage list WebSocketClient" where
  "three_handlers =
     onMessage recorder (onMessage thrower (onMessage recorder (WebSocketClient_new console_url False [])))"

definition first_retry_pending :: "unit WebSocketClient" where
  "first_retry_pending = run [CallConnect, SockClose 0 1006] (WebSocketClient_new console_url False ())"

definition five_failures :: "(bool \<times> nat) list" where
  "five_failures = [(True, 1006), (True, 1006), (True, 1006), (True, 1006), (True, 1006)]"

definition exhausted_client :: "unit WebSocketClient" where
  "exhausted_client = run (failed_attempts 1 five_failures) first_retry_pending"

definition connected_client :: "unit WebSocketClient" where
  "connected_client = run [CallConnect, SockOpen 0] (WebSocketClient_new console_url False ())"

text \<open>
  A run of the heartbeat wrapper: the connection drops, \<^verbatim>\<open>disconnect()\<close> is called while the
  retry is pending, the retry fires and its socket opens.
\<close>

definition until_disconnect :: "ar_event list" where
  "until_disconnect =
     [Base CallConnect, Base (SockOpen 0), Base (SockClose 0 1006), Base CallDisconnect]"

definition reconnect_after_disconnect :: "ar_event list" where
  "reconnect_after_disconnect =
     until_disconnect @ [PingTick ''t1'', Base (TimerFire 0), Base (SockOpen 1), PingTick ''t2'']"

text \<open>A store whose console channel is connected, and a view in which a text was typed.\<close>

definition connected_store :: "unit websocket_store" where
  "connected_store =
     \<lparr>consoleWs = Some (ar_run [Base CallConnect, Base (SockOpen 0)]
                          (AutoReconnectWebSocket_new console_url False ())),
      consoleStatus = \<lparr>connected = True, reconnecting = False, error = None\<rparr>,
      consoleMessages = []\<rparr>"


text \<open>Console messages that differ from one another.\<close>

definition numbered :: "nat \<Rightarrow> ConsoleMessage" where
  "numbered n =
     \<lparr>msg_type = ''console_log'', timestamp = ''t'',
      data = ConsoleData ''INFO'' ''Server'' [n]\<rparr>"

section \<open>Projections of the client operations\<close>

lemma ucs_simps [simp]:
  "connectionStatus (updateConnectionStatus st c) = st"
  "ws (updateConnectionStatus st c) = ws c"
  "reconnectAttempts (updateConnectionStatus st c) = reconnectAttempts c"
  "urlRejected (updateConnectionStatus st c) = urlRejected c"
  "sockets (updateConnectionStatus st c) = sockets c"
  "timers (updateConnectionStatus st c) = timers c"
  "messageHandlers (updateConnectionStatus st c) = messageHandlers c"
  "connectionHandlers (updateConnectionStatus st c) = connectionHandlers c"
  by (simp_all add: updateConnectionStatus_def Let_def)

lemma ucs_pingInterval [simp]:
  "pingInterval (updateConnectionStatus st c) = pingInterval c"
  by (simp add: updateConnectionStatus_def Let_def)

lemma ucs_world:
  "(world (updateConnectionStatus st c), console (updateConnectionStatus st c)) =
     fst (dispatch ''Error in connection handler: '' (connectionHandlers c) st (world c, console c))"
  by (simp add: updateConnectionStatus_def Let_def)

lemma settle_simps [simp]:
  "connectionStatus (settle i p c) = connectionStatus c"
  "ws (settle i p c) = ws c"
  "reconnectAttempts (settle i p c) = reconnectAttempts c"
  "urlRejected (settle i p c) = urlRejected c"
  "timers (settle i p c) = timers c"
  "length (sockets (settle i p c)) = length (sockets c)"
  "world (settle i p c) = world c"
  "console (settle i p c) = console c"
  "connectionHandlers (settle i p c) = connectionHandlers c"
  by (simp_all add: settle_def)

lemma connect_simps:
  "reconnectAttempts (connect c) = reconnectAttempts c"
  "timers (connect c) = timers c"
  "urlRejected (connect c) = urlRejected c"
  "connectionHandlers (connect c) = connectionHandlers c"
  by (simp_all add: connect_def Let_def)

lemma connect_ok:
  "\<not> urlRejected c \<Longrightarrow> sockets (connect c) = sockets c @ [new_WebSocket]"
  "\<not> urlRejected c \<Longrightarrow> ws (connect c) = Some (length (sockets c))"
  "\<not> urlRejected c \<Longrightarrow>
     connectionStatus (connect c) = \<lparr>connected = False, reconnecting = True, error = None\<rparr>"
  by (simp_all add: connect_def Let_def)

lemma attemptReconnect_below:
  "reconnectAttempts c < maxReconnectAttempts \<Longrightarrow>
     attemptReconnect c =
       (updateConnectionStatus \<lparr>connected = False, reconnecting = True, error = None\<rparr>
          (c\<lparr>reconnectAttempts := reconnectAttempts c + 1\<rparr>))
       \<lparr>timers := timers c @ [reconnectDelay * 2 ^ reconnectAttempts c]\<rparr>"
  by (simp add: attemptReconnect_def Let_def)

lemma onclose_below:
  "code \<noteq> 1000 \<Longrightarrow> reconnectAttempts c < maxReconnectAttempts \<Longrightarrow>
     onclose code c =
       attemptReconnect (updateConnectionStatus \<lparr>connected = False, reconnecting = False, error = None\<rparr> c)"
  by (simp add: onclose_def Let_def)

lemma onclose_stop:
  "code = 1000 \<or> maxReconnectAttempts \<le> reconnectAttempts c \<Longrightarrow>
     onclose code c = updateConnectionStatus \<lparr>connected = False, reconnecting = False, error = None\<rparr> c"
  by (auto simp add: onclose_def Let_def)

lemma onclose_exhausted:
  "maxReconnectAttempts \<le> reconnectAttempts c \<Longrightarrow>
     timers (onclose code c) = timers c \<and> reconnectAttempts (onclose code c) = reconnectAttempts c"
  by (simp add: onclose_stop)

lemma onopen_resets: "reconnectAttempts (onopen i c) = 0"
  by (simp add: onopen_def)

lemma map_update_same: "(map f xs)[i := f (xs ! i)] = map f xs"
  by (cases "i < length xs") (simp_all add: list_update_same_conv list_update_beyond)

lemma disconnect_simps:
  "timers (disconnect c) = timers c"
  "connectionStatus (disconnect c) = \<lparr>connected = False, reconnecting = False, error = None\<rparr>"
  "ws (disconnect c) = None"
  "reconnectAttempts (disconnect c) = reconnectAttempts c"
  "map sent (sockets (disconnect c)) = map sent (sockets c)"
  by (simp_all add: disconnect_def ws_close_def map_update map_update_same split: option.splits)

lemma disconnect_close_call:
  "ws c = Some i \<Longrightarrow> i < length (sockets c) \<Longrightarrow>
     close_calls (sockets (disconnect c) ! i) = close_calls (sockets c ! i) @ [(1000, ''Manual disconnect'')]"
  by (simp add: disconnect_def ws_close_def)

text \<open>
The definitions unfolded to evaluate a concrete run.
\<close>

lemmas eval_defs =
  WebSocketClient_new_def AutoReconnectWebSocket_new_def onConnectionChange_def onMessage_def
  connect_def onopen_def onclose_def onerror_def onmessage_def attemptReconnect_def disconnect_def
  send_def ping_def sendCommand_def handleMessage_def fire_timer_def
  updateConnectionStatus_def dispatch_def guarded_def recorder_def thrower_def new_WebSocket_def
  set_readyState_def settle_def ws_close_def live_def isConnected_def
  maxReconnectAttempts_def reconnectDelay_def pingIntervalMs_def
  stopPing_def startPing_def ping_tick_def ar_connect_def ar_onopen_def ar_disconnect_def
  WebSocketClient.extend_def AutoReconnectWebSocket.fields_def

section \<open>The console buffer\<close>

lemma consoleMessages_add:
  "consoleMessages (addConsoleMessage m st) =
     drop (length (consoleMessages st) + 1 - maxConsoleMessages) (consoleMessages st @ [m])"
  by (simp add: addConsoleMessage_def Let_def)

lemma length_add_le: "length (consoleMessages (addConsoleMessage m st)) \<le> maxConsoleMessages"
  by (simp add: consoleMessages_add)

lemma drop_append_le: "k \<le> length xs \<Longrightarrow> drop k xs @ ys = drop k (xs @ ys)"
  by simp

lemma consoleMessages_adds:
  "length (consoleMessages st) \<le> maxConsoleMessages \<Longrightarrow>
   consoleMessages (addConsoleMessages ms st) =
     drop (length (consoleMessages st) + length ms - maxConsoleMessages) (consoleMessages st @ ms)"
proof (induction ms arbitrary: st)
  case Nil
  then show ?case by simp
next
  case (Cons m ms)
  let ?b = "consoleMessages st"
  let ?k = "length ?b + 1 - maxConsoleMessages"
  let ?b' = "consoleMessages (addConsoleMessage m st)"
  have b': "?b' = drop ?k (?b @ [m])"
    by (rule consoleMessages_add)
  have k: "?k \<le> length (?b @ [m])" by simp
  have app: "?b' @ ms = drop ?k (?b @ m # ms)"
    unfolding b' using drop_append_le [OF k, of ms] by (simp only: append_assoc append_Cons append_Nil)
  have len: "length ?b' + length ms - maxConsoleMessages + ?k
             = length ?b + length (m # ms) - maxConsoleMessages"
    using Cons.prems by (simp add: b')
  have "consoleMessages (addConsoleMessages (m # ms) st) =
          drop (length ?b' + length ms - maxConsoleMessages) (?b' @ ms)"
    using Cons.IH [OF length_add_le [of m st]] by simp
  also have "\<dots> = drop (length ?b' + length ms - maxConsoleMessages + ?k) (?b @ m # ms)"
    by (simp only: app drop_drop)
  also have "\<dots> = drop (length ?b + length (m # ms) - maxConsoleMessages) (?b @ m # ms)"
    by (simp only: len)
  finally show ?case .
qed

text \<open>
  C5. Appending a sequence of \<open>N > 1000\<close> console messages to the empty buffer with
  \<open>addConsoleMessage\<close> leaves exactly the last 1000 of them, in arrival order; and after
  every operation on the buffer (an append, whatever the buffer held before, or a clear) its
  length is at most 1000.
\<close>

theorem console_buffer_keeps_last_1000:
  "length ms > 1000 \<and> consoleMessages st = [] \<longrightarrow>
     consoleMessages (addConsoleMessages ms st) = drop (length ms - 1000) ms
     \<and> length (consoleMessages (addConsoleMessages ms st)) = 1000
     \<and> (\<forall>i < 1000. consoleMessages (addConsoleMessages ms st) ! i = ms ! (length ms - 1000 + i))
     \<and> length (consoleMessages (addConsoleMessage m st')) \<le> 1000
     \<and> length (consoleMessages (clearConsoleMessages st')) \<le> 1000"
proof (intro impI, elim conjE)
  assume big: "length ms > 1000" and empty: "consoleMessages st = []"
  have eq: "consoleMessages (addConsoleMessages ms st) = drop (length ms - 1000) ms"
    using consoleMessages_adds [of st ms] empty by (simp add: maxConsoleMessages_def)
  have len: "length (consoleMessages (addConsoleMessages ms st)) = 1000"
    using big by (simp add: eq)
  have nth: "\<forall>i < 1000. consoleMessages (addConsoleMessages ms st) ! i = ms ! (length ms - 1000 + i)"
    using big by (simp add: eq)
  have add: "length (consoleMessages (addConsoleMessage m st')) \<le> 1000"
    using length_add_le [of m st'] by (simp add: maxConsoleMessages_def)
  have clear: "length (consoleMessages (clearConsoleMessages st')) \<le> 1000"
    by (simp add: clearConsoleMessages_def)
  from eq len nth add clear
  show "consoleMessages (addConsoleMessages ms st) = drop (length ms - 1000) ms
     \<and> length (consoleMessages (addConsoleMessages ms st)) = 1000
     \<and> (\<forall>i < 1000. consoleMessages (addConsoleMessages ms st) ! i = ms ! (length ms - 1000 + i))
     \<and> length (consoleMessages (addConsoleMessage m st')) \<le> 1000
     \<and> length (consoleMessages (clearConsoleMessages st')) \<le> 1000"
    by blast
qed

theorem console_buffer_keeps_last_1000_witness:
  "length (map numbered [0..<1001]) > 1000
   \<and> consoleMessages empty_store = []
   \<and> consoleMessages (addConsoleMessages (map numbered [0..<1001]) empty_store)
       = map numbered [1..<1001]
   \<and> numbered 0 \<noteq> numbered 1"
proof -
  have h: "length (map numbered [0..<1001]) > 1000 \<and> consoleMessages empty_store = []"
    by (simp add: empty_store_def)
  have d: "numbered 0 \<noteq> numbered 1"
    by (simp add: numbered_def)
  from console_buffer_keeps_last_1000
         [of "map numbered [0..<1001]" empty_store "numbered 0" empty_store, THEN mp, OF h]
  show ?thesis using h d by (simp add: drop_map)
qed

section \<open>Sending a console command\<close>












lemma connected_store_client:
  "consoleWs connected_store =
     Some (ar_run [Base CallConnect, Base (SockOpen 0)] (AutoReconnectWebSocket_new console_url False ()))"
  by (simp add: connected_store_def)


section \<open>Dispatch to handlers\<close>

lemma forEach_guarded:
  "forEach (guarded label x) hs (w, con) =
     ((foldl (\<lambda>w h. fst (h x w)) w hs, con @ map ((@) label) (thrown hs x w)), None)"
proof (induction hs arbitrary: w con)
  case Nil
  then show ?case by simp
next
  case (Cons h hs)
  obtain w' r where h: "h x w = (w', r)" by (cases "h x w")
  show ?case
  proof (cases r)
    case None
    then show ?thesis using h Cons.IH [of w' con] by (simp add: guarded_def)
  next
    case (Some e)
    then show ?thesis using h Cons.IH [of w' "con @ [label @ e]"] by (simp add: guarded_def)
  qed
qed

lemma dispatch_never_throws: "snd (dispatch label hs x st) = None"
  by (cases st) (simp add: dispatch_def forEach_guarded)

text \<open>
  C8. Dispatching to any list of handlers never throws to the caller; every handler is
  called, in list order, on the state its predecessors left, whether or not an earlier one
  threw; each thrown error adds one line to the console. \<open>handleMessage\<close> and
  \<open>updateConnectionStatus\<close> dispatch this way, and \<open>onMessage\<close> and \<open>onConnectionChange\<close>
  register at the end of the list, so list order is registration order.
\<close>

theorem handlers_run_in_order_and_errors_are_contained:
  "snd (dispatch label hs x (w, con)) = None
   \<and> fst (dispatch label hs x (w, con)) =
       (foldl (\<lambda>w h. fst (h x w)) w hs, con @ map ((@) label) (thrown hs x w))
   \<and> world (handleMessage m c) = foldl (\<lambda>w h. fst (h m w)) (world c) (messageHandlers c)
   \<and> console (handleMessage m c) =
       console c @ map ((@) ''Error in message handler: '') (thrown (messageHandlers c) m (world c))
   \<and> world (updateConnectionStatus st c) = foldl (\<lambda>w h. fst (h st w)) (world c) (connectionHandlers c)
   \<and> console (updateConnectionStatus st c) =
       console c @ map ((@) ''Error in connection handler: '') (thrown (connectionHandlers c) st (world c))
   \<and> messageHandlers (onMessage h c) = messageHandlers c @ [h]
   \<and> connectionHandlers (onConnectionChange g c) = connectionHandlers c @ [g]"
  by (simp add: dispatch_def forEach_guarded handleMessage_def updateConnectionStatus_def Let_def
        onMessage_def onConnectionChange_def)

text \<open>
  C8 at a concrete input: three handlers, the second throws after recording; all three
  record the message and one error line is logged.
\<close>

theorem handlers_run_in_order_and_errors_are_contained_witness:
  "world (handleMessage hello three_handlers) = [hello, hello, hello]
   \<and> console (handleMessage hello three_handlers) = [''Error in message handler: boom'']"
  using handlers_run_in_order_and_errors_are_contained
          [of "''Error in message handler: ''" "messageHandlers three_handlers" hello "[]" "[]"
              hello three_handlers]
  by (simp add: three_handlers_def onMessage_def WebSocketClient_new_def recorder_def thrower_def)

section \<open>Backoff\<close>

text \<open>
  C3. For \<open>1 \<le> k \<le> 5\<close>, when \<open>k - 1\<close> attempts have been counted, \<open>attemptReconnect\<close>
  (and so a close with a code other than 1000) raises the counter to \<open>k\<close> and schedules one
  timeout of \<open>1000 * 2 ^ (k - 1)\<close> milliseconds: the counter is incremented before the delay
  is computed.
\<close>

theorem backoff_delay:
  "1 \<le> k \<and> k \<le> 5 \<and> reconnectAttempts c = k - 1 \<and> code \<noteq> 1000 \<longrightarrow>
     timers (attemptReconnect c) = timers c @ [1000 * 2 ^ (k - 1)]
     \<and> reconnectAttempts (attemptReconnect c) = k
     \<and> timers (onclose code c) = timers c @ [1000 * 2 ^ (k - 1)]
     \<and> reconnectAttempts (onclose code c) = k"
proof (intro impI, elim conjE)
  assume k: "1 \<le> k" "k \<le> 5" and a: "reconnectAttempts c = k - 1" and code: "code \<noteq> 1000"
  have below: "reconnectAttempts c < maxReconnectAttempts"
    using k a by (simp add: maxReconnectAttempts_def)
  have t: "timers (attemptReconnect c) = timers c @ [1000 * 2 ^ (k - 1)]"
    by (simp add: attemptReconnect_below [OF below] a reconnectDelay_def)
  have n: "reconnectAttempts (attemptReconnect c) = k"
    using k by (simp add: attemptReconnect_below [OF below] a)
  let ?c1 = "updateConnectionStatus \<lparr>connected = False, reconnecting = False, error = None\<rparr> c"
  have below1: "reconnectAttempts ?c1 < maxReconnectAttempts" using below by simp
  have oc: "onclose code c = attemptReconnect ?c1"
    using below code by (simp add: onclose_below)
  have t': "timers (onclose code c) = timers c @ [1000 * 2 ^ (k - 1)]"
    by (simp add: oc attemptReconnect_below [OF below1] a reconnectDelay_def)
  have n': "reconnectAttempts (onclose code c) = k"
    using k by (simp add: oc attemptReconnect_below [OF below1] a)
  from t n t' n'
  show "timers (attemptReconnect c) = timers c @ [1000 * 2 ^ (k - 1)]
     \<and> reconnectAttempts (attemptReconnect c) = k
     \<and> timers (onclose code c) = timers c @ [1000 * 2 ^ (k - 1)]
     \<and> reconnectAttempts (onclose code c) = k"
    by blast
qed

text \<open>
C3 at attempts 1, 3 and 5: 1000, 4000 and 16000 milliseconds.
\<close>

theorem backoff_delay_witness:
  "timers (attemptReconnect ((WebSocketClient_new console_url False ())\<lparr>reconnectAttempts := 0\<rparr>)) = [1000]
   \<and> timers (attemptReconnect ((WebSocketClient_new console_url False ())\<lparr>reconnectAttempts := 2\<rparr>)) = [4000]
   \<and> timers (attemptReconnect ((WebSocketClient_new console_url False ())\<lparr>reconnectAttempts := 4\<rparr>)) = [16000]"
  using backoff_delay [of 1 "(WebSocketClient_new console_url False ())\<lparr>reconnectAttempts := 0\<rparr>" 1006]
        backoff_delay [of 3 "(WebSocketClient_new console_url False ())\<lparr>reconnectAttempts := 2\<rparr>" 1006]
        backoff_delay [of 5 "(WebSocketClient_new console_url False ())\<lparr>reconnectAttempts := 4\<rparr>" 1006]
  by (simp add: WebSocketClient_new_def)

section \<open>Notifications on an abnormal closure\<close>

text \<open>
  C10. On a closure with a code other than 1000 while fewer than five attempts are counted,
  the connection handlers are all called with \<open>{connected: false, reconnecting: false}\<close> and
  then all called with \<open>{connected: false, reconnecting: true}\<close>, in this order, and one retry
  is scheduled.
\<close>

theorem close_notifies_disconnected_then_reconnecting:
  "code \<noteq> 1000 \<and> reconnectAttempts c < maxReconnectAttempts \<longrightarrow>
     (world (onclose code c), console (onclose code c)) =
        fst (dispatch ''Error in connection handler: '' (connectionHandlers c)
               \<lparr>connected = False, reconnecting = True, error = None\<rparr>
               (fst (dispatch ''Error in connection handler: '' (connectionHandlers c)
                       \<lparr>connected = False, reconnecting = False, error = None\<rparr>
                       (world c, console c))))
     \<and> connectionStatus (onclose code c) = \<lparr>connected = False, reconnecting = True, error = None\<rparr>
     \<and> length (timers (onclose code c)) = length (timers c) + 1"
proof (intro impI, elim conjE)
  assume code: "code \<noteq> 1000" and below: "reconnectAttempts c < maxReconnectAttempts"
  let ?off = "\<lparr>connected = False, reconnecting = False, error = None\<rparr>"
  let ?re = "\<lparr>connected = False, reconnecting = True, error = None\<rparr>"
  let ?c1 = "updateConnectionStatus ?off c"
  let ?c2 = "?c1\<lparr>reconnectAttempts := reconnectAttempts ?c1 + 1\<rparr>"
  have below1: "reconnectAttempts ?c1 < maxReconnectAttempts" using below by simp
  have oc: "onclose code c =
      (updateConnectionStatus ?re ?c2)\<lparr>timers := timers ?c1 @ [reconnectDelay * 2 ^ reconnectAttempts ?c1]\<rparr>"
    using onclose_below [OF code below] attemptReconnect_below [OF below1] by simp
  have "(world (onclose code c), console (onclose code c)) =
          (world (updateConnectionStatus ?re ?c2), console (updateConnectionStatus ?re ?c2))"
    by (simp add: oc)
  also have "\<dots> = fst (dispatch ''Error in connection handler: '' (connectionHandlers ?c2) ?re
                        (world ?c2, console ?c2))"
    by (rule ucs_world)
  also have "(world ?c2, console ?c2) = (world ?c1, console ?c1)" by simp
  also have "\<dots> = fst (dispatch ''Error in connection handler: '' (connectionHandlers c) ?off
                        (world c, console c))"
    by (rule ucs_world)
  finally have w: "(world (onclose code c), console (onclose code c)) =
        fst (dispatch ''Error in connection handler: '' (connectionHandlers c) ?re
               (fst (dispatch ''Error in connection handler: '' (connectionHandlers c) ?off
                       (world c, console c))))"
    by simp
  have st: "connectionStatus (onclose code c) = ?re" by (simp add: oc)
  have tm: "length (timers (onclose code c)) = length (timers c) + 1" by (simp add: oc)
  from w st tm
  show "(world (onclose code c), console (onclose code c)) =
        fst (dispatch ''Error in connection handler: '' (connectionHandlers c) ?re
               (fst (dispatch ''Error in connection handler: '' (connectionHandlers c) ?off
                       (world c, console c))))
     \<and> connectionStatus (onclose code c) = ?re
     \<and> length (timers (onclose code c)) = length (timers c) + 1"
    by blast
qed

text \<open>
  C10 at a concrete input: a recording handler on a connected client sees disconnected, then
  reconnecting.
\<close>

theorem close_notifies_disconnected_then_reconnecting_witness:
  "(1006::nat) \<noteq> 1000
   \<and> reconnectAttempts (run [CallConnect, SockOpen 0] observed_client) < maxReconnectAttempts
   \<and> world (run [CallConnect, SockOpen 0] observed_client) =
     [\<lparr>connected = False, reconnecting = True, error = None\<rparr>,
      \<lparr>connected = True, reconnecting = False, error = None\<rparr>]
   \<and> world (onclose 1006 (run [CallConnect, SockOpen 0] observed_client)) =
     [\<lparr>connected = False, reconnecting = True, error = None\<rparr>,
      \<lparr>connected = True, reconnecting = False, error = None\<rparr>,
      \<lparr>connected = False, reconnecting = False, error = None\<rparr>,
      \<lparr>connected = False, reconnecting = True, error = None\<rparr>]"
  using close_notifies_disconnected_then_reconnecting
          [of 1006 "run [CallConnect, SockOpen 0] observed_client"]
  by (simp add: observed_client_def eval_defs Let_def)

section \<open>Calling connect again\<close>

text \<open>
  C2, as the code has it. \<open>connect\<close> is not idempotent: every call whose constructor does
  not throw appends one new, connecting socket, leaves the earlier sockets untouched and
  makes the new one the current socket \<open>ws\<close>; a call whose constructor throws creates none.
\<close>

theorem connect_creates_a_socket_each_time:
  "(\<not> urlRejected c \<longrightarrow>
      sockets (connect c) = sockets c @ [new_WebSocket] \<and> ws (connect c) = Some (length (sockets c)))
   \<and> (urlRejected c \<longrightarrow> sockets (connect c) = sockets c \<and> ws (connect c) = ws c)
   \<and> live new_WebSocket"
  by (simp add: connect_def Let_def live_def new_WebSocket_def)

text \<open>
C2 at a concrete input: \<open>connect\<close> on a connected client.
\<close>

theorem connect_creates_a_socket_each_time_witness:
  "\<not> urlRejected connected_client
   \<and> sockets (connect connected_client) = sockets connected_client @ [new_WebSocket]
   \<and> ws (connect connected_client) = Some 1
   \<and> map live (sockets (connect connected_client)) = [True, True]"
proof -
  have h: "\<not> urlRejected connected_client \<and> length (sockets connected_client) = 1
           \<and> map live (sockets connected_client) = [True]"
    by (simp add: connected_client_def eval_defs Let_def)
  from connect_creates_a_socket_each_time [of connected_client]
  show ?thesis using h by simp
qed

text \<open>
  C2 as stated fails: two \<open>connect()\<close> calls in a row leave two live sockets, neither of
  them closed.
\<close>

theorem connect_twice_two_live_sockets:
  "map live (sockets (run [CallConnect, CallConnect] (WebSocketClient_new console_url False ()))) = [True, True]
   \<and> map readyState (sockets (run [CallConnect, CallConnect] (WebSocketClient_new console_url False ())))
       = [CONNECTING, CONNECTING]
   \<and> map close_calls (sockets (run [CallConnect, CallConnect] (WebSocketClient_new console_url False ())))
       = [[], []]"
  by (simp add: eval_defs Let_def)

section \<open>Manual disconnect\<close>

text \<open>
  What the call itself does, in every state: it schedules nothing, publishes
  \<open>{connected: false, reconnecting: false}\<close>, drops the current socket and, when there is one,
  closes it with code 1000 and reason \<open>Manual disconnect\<close>. It leaves the pending timeouts as
  they are, and whether the close event that follows is taken as manual depends on the code
  the transport reports alone.
\<close>

lemma disconnect_call:
  "timers (disconnect c) = timers c
   \<and> connectionStatus (disconnect c) = \<lparr>connected = False, reconnecting = False, error = None\<rparr>
   \<and> ws (disconnect c) = None
   \<and> (ws c = Some i \<and> i < length (sockets c) \<longrightarrow>
        close_calls (sockets (disconnect c) ! i) = close_calls (sockets c ! i) @ [(1000, ''Manual disconnect'')])
   \<and> timers (onclose 1000 c) = timers c"
  by (simp add: disconnect_simps disconnect_close_call onclose_stop)

text \<open>
  C4. The claim that a manual \<open>disconnect()\<close> never leads to a scheduled reconnection attempt
  fails on two runs of a new client. In the first, \<open>disconnect()\<close> is called while the socket
  is still connecting: the socket is closed with code 1000 and reason \<open>Manual disconnect\<close>,
  the transport reports the failed connection with close code 1006, and the close handler
  schedules a retry in 1000 ms, which then creates a second socket. In the second, the
  connection had dropped with code 1006 before \<open>disconnect()\<close> was called: the retry
  scheduled by the drop stays pending after the call, fires, and its socket opens, so the
  client is connected again.
\<close>

theorem reconnect_scheduled_after_manual_disconnect:
  "map close_calls (sockets (run [CallConnect, CallDisconnect] (WebSocketClient_new console_url False ())))
     = [[(1000, ''Manual disconnect'')]]
   \<and> timers (run [CallConnect, CallDisconnect] (WebSocketClient_new console_url False ())) = []
   \<and> timers (run [CallConnect, CallDisconnect, SockClose 0 1006]
               (WebSocketClient_new console_url False ())) = [1000]
   \<and> connectionStatus (run [CallConnect, CallDisconnect, SockClose 0 1006]
               (WebSocketClient_new console_url False ()))
       = \<lparr>connected = False, reconnecting = True, error = None\<rparr>
   \<and> map readyState (sockets (run [CallConnect, CallDisconnect, SockClose 0 1006, TimerFire 0]
               (WebSocketClient_new console_url False ()))) = [CLOSED, CONNECTING]
   \<and> timers (run [CallConnect, SockOpen 0, SockClose 0 1006, CallDisconnect]
               (WebSocketClient_new console_url False ())) = [1000]
   \<and> connectionStatus (run [CallConnect, SockOpen 0, SockClose 0 1006, CallDisconnect]
               (WebSocketClient_new console_url False ()))
       = \<lparr>connected = False, reconnecting = False, error = None\<rparr>
   \<and> connectionStatus (run [CallConnect, SockOpen 0, SockClose 0 1006, CallDisconnect,
                            TimerFire 0, SockOpen 1]
               (WebSocketClient_new console_url False ()))
       = \<lparr>connected = True, reconnecting = False, error = None\<rparr>"
  by (simp add: eval_defs Let_def)

section \<open>Giving up after five failed retries\<close>

lemma run_append: "run (xs @ ys) c = run ys (run xs c)"
  by (induction xs arbitrary: c) simp_all

lemma failed_attempts_Cons:
  "failed_attempts i (a # rest) = attempt_events i a @ failed_attempts (Suc i) rest"
  by (cases a) (simp add: attempt_events_def)

lemma failed_attempt_below:
  assumes "\<not> urlRejected c" and "timers c = [d]" and "snd a \<noteq> 1000"
    and "reconnectAttempts c < maxReconnectAttempts"
  shows "urlRejected (run (attempt_events (length (sockets c)) a) c) = False"
    and "length (sockets (run (attempt_events (length (sockets c)) a) c)) = Suc (length (sockets c))"
    and "reconnectAttempts (run (attempt_events (length (sockets c)) a) c) = reconnectAttempts c + 1"
    and "timers (run (attempt_events (length (sockets c)) a) c) = [reconnectDelay * 2 ^ reconnectAttempts c]"
  using assms
  by (simp_all add: attempt_events_def eval_defs Let_def nth_append)

lemma failed_attempt_last:
  assumes "\<not> urlRejected c" and "timers c = [d]"
    and "maxReconnectAttempts \<le> reconnectAttempts c"
  shows "reconnectAttempts (run (attempt_events (length (sockets c)) a) c) = reconnectAttempts c"
    and "timers (run (attempt_events (length (sockets c)) a) c) = []"
    and "connectionStatus (run (attempt_events (length (sockets c)) a) c)
           = \<lparr>connected = False, reconnecting = False, error = None\<rparr>"
    and "urlRejected (run (attempt_events (length (sockets c)) a) c) = False"
  using assms
  by (simp_all add: attempt_events_def eval_defs Let_def nth_append)

lemma failed_attempts_exhaust:
  "\<not> urlRejected c \<Longrightarrow> timers c = [d] \<Longrightarrow>
   reconnectAttempts c \<le> maxReconnectAttempts \<Longrightarrow>
   reconnectAttempts c + length as = Suc maxReconnectAttempts \<Longrightarrow>
   \<forall>a \<in> set as. snd a \<noteq> 1000 \<Longrightarrow>
   reconnectAttempts (run (failed_attempts (length (sockets c)) as) c) = maxReconnectAttempts
   \<and> timers (run (failed_attempts (length (sockets c)) as) c) = []
   \<and> connectionStatus (run (failed_attempts (length (sockets c)) as) c)
       = \<lparr>connected = False, reconnecting = False, error = None\<rparr>
   \<and> \<not> urlRejected (run (failed_attempts (length (sockets c)) as) c)"
proof (induction as arbitrary: c d)
  case Nil
  then show ?case by simp
next
  case (Cons a rest)
  let ?c1 = "run (attempt_events (length (sockets c)) a) c"
  have run_eq: "run (failed_attempts (length (sockets c)) (a # rest)) c
                  = run (failed_attempts (Suc (length (sockets c))) rest) ?c1"
    by (simp only: failed_attempts_Cons run_append)
  show ?case
  proof (cases "reconnectAttempts c < maxReconnectAttempts")
    case True
    have code: "snd a \<noteq> 1000" using Cons.prems(5) by simp
    note r = failed_attempt_below [OF Cons.prems(1) Cons.prems(2) code True]
    have p1: "\<not> urlRejected ?c1" using r(1) by simp
    have p3: "reconnectAttempts ?c1 \<le> maxReconnectAttempts" using True r(3) by simp
    have p4: "reconnectAttempts ?c1 + length rest = Suc maxReconnectAttempts"
      using Cons.prems(4) r(3) by simp
    have p5: "\<forall>a \<in> set rest. snd a \<noteq> 1000" using Cons.prems(5) by simp
    from Cons.IH [OF p1 r(4) p3 p4 p5]
    show ?thesis unfolding run_eq r(2) .
  next
    case False
    then have top: "maxReconnectAttempts \<le> reconnectAttempts c" by simp
    then have rest: "rest = []" using Cons.prems(3) Cons.prems(4) by simp
    have run1: "run (failed_attempts (length (sockets c)) (a # rest)) c = ?c1"
      by (simp add: rest failed_attempts_Cons run_append)
    have eq: "reconnectAttempts c = maxReconnectAttempts" using top Cons.prems(3) by simp
    show ?thesis
      unfolding run1
      using failed_attempt_last [OF Cons.prems(1) Cons.prems(2) top, of a] eq by simp
  qed
qed

lemma first_retry_pending_facts:
  "reconnectAttempts first_retry_pending = 1"
  "timers first_retry_pending = [1000]"
  "\<not> urlRejected first_retry_pending"
  "length (sockets first_retry_pending) = 1"
  by (simp_all add: first_retry_pending_def eval_defs Let_def)

text \<open>
  C1, as the code has it. From any state in which the first retry is pending, after five
  retries that each end in a closure with a code other than 1000 the status is
  \<open>{connected: false, reconnecting: false}\<close>, no timeout is pending and five attempts are
  counted; an explicit \<open>connect()\<close> leaves the counter at five (so a closure of its socket
  schedules nothing either), and the counter returns to zero when a socket opens. In any
  state with five or more attempts counted, a closure schedules nothing and keeps the
  counter.
\<close>

theorem retries_stop_after_five_failed_attempts:
  "reconnectAttempts c = 1 \<and> timers c = [d] \<and> \<not> urlRejected c
   \<and> length as = 5 \<and> (\<forall>a \<in> set as. snd a \<noteq> 1000) \<longrightarrow>
     connected (connectionStatus (run (failed_attempts (length (sockets c)) as) c)) = False
     \<and> reconnecting (connectionStatus (run (failed_attempts (length (sockets c)) as) c)) = False
     \<and> timers (run (failed_attempts (length (sockets c)) as) c) = []
     \<and> reconnectAttempts (run (failed_attempts (length (sockets c)) as) c) = 5
     \<and> timers (onclose code (run (failed_attempts (length (sockets c)) as) c)) = []
     \<and> timers (connect (run (failed_attempts (length (sockets c)) as) c)) = []
     \<and> reconnectAttempts (connect (run (failed_attempts (length (sockets c)) as) c)) = 5
     \<and> timers (onclose code (connect (run (failed_attempts (length (sockets c)) as) c))) = []
     \<and> reconnectAttempts (onopen i (connect (run (failed_attempts (length (sockets c)) as) c))) = 0
     \<and> (5 \<le> reconnectAttempts s \<longrightarrow>
          timers (onclose code s) = timers s
          \<and> reconnectAttempts (onclose code s) = reconnectAttempts s)"
proof (intro impI, elim conjE)
  assume a: "reconnectAttempts c = 1" and t: "timers c = [d]" and u: "\<not> urlRejected c"
    and l: "length as = 5" and codes: "\<forall>a \<in> set as. snd a \<noteq> 1000"
  let ?c' = "run (failed_attempts (length (sockets c)) as) c"
  have le: "reconnectAttempts c \<le> maxReconnectAttempts"
    using a by (simp add: maxReconnectAttempts_def)
  have sum: "reconnectAttempts c + length as = Suc maxReconnectAttempts"
    using a l by (simp add: maxReconnectAttempts_def)
  note fin = failed_attempts_exhaust [OF u t le sum codes]
  have n: "reconnectAttempts ?c' = 5" using fin by (simp add: maxReconnectAttempts_def)
  have top: "maxReconnectAttempts \<le> reconnectAttempts ?c'" using fin by simp
  have top2: "maxReconnectAttempts \<le> reconnectAttempts (connect ?c')"
    using top by (simp add: connect_simps)
  have tm: "timers ?c' = []" using fin by simp
  have st: "connected (connectionStatus ?c') = False" "reconnecting (connectionStatus ?c') = False"
    using fin by simp_all
  have oc: "timers (onclose code ?c') = []"
    using onclose_exhausted [OF top, of code] tm by simp
  have cn: "timers (connect ?c') = []" "reconnectAttempts (connect ?c') = 5"
    using tm n by (simp_all add: connect_simps)
  have oc2: "timers (onclose code (connect ?c')) = []"
    using onclose_exhausted [OF top2, of code] cn by simp
  have op: "reconnectAttempts (onopen i (connect ?c')) = 0"
    by (rule onopen_resets)
  have gen: "5 \<le> reconnectAttempts s \<longrightarrow>
          timers (onclose code s) = timers s
          \<and> reconnectAttempts (onclose code s) = reconnectAttempts s"
    using onclose_exhausted [of s code] by (simp add: maxReconnectAttempts_def)
  from st tm n oc cn oc2 op gen
  show "connected (connectionStatus ?c') = False
     \<and> reconnecting (connectionStatus ?c') = False
     \<and> timers ?c' = []
     \<and> reconnectAttempts ?c' = 5
     \<and> timers (onclose code ?c') = []
     \<and> timers (connect ?c') = []
     \<and> reconnectAttempts (connect ?c') = 5
     \<and> timers (onclose code (connect ?c')) = []
     \<and> reconnectAttempts (onopen i (connect ?c')) = 0
     \<and> (5 \<le> reconnectAttempts s \<longrightarrow>
          timers (onclose code s) = timers s
          \<and> reconnectAttempts (onclose code s) = reconnectAttempts s)"
    by blast
qed

text \<open>
C1 at a concrete input: a fresh client whose connection and five retries all fail.
\<close>

theorem retries_stop_after_five_failed_attempts_witness:
  "reconnectAttempts first_retry_pending = 1 \<and> timers first_retry_pending = [1000]
   \<and> \<not> urlRejected first_retry_pending \<and> length five_failures = 5
   \<and> list_all (\<lambda>a. snd a \<noteq> 1000) five_failures
   \<and> connectionStatus exhausted_client = \<lparr>connected = False, reconnecting = False, error = None\<rparr>
   \<and> timers exhausted_client = []
   \<and> reconnectAttempts exhausted_client = 5
   \<and> timers (onclose 1006 exhausted_client) = []
   \<and> reconnectAttempts (connect exhausted_client) = 5
   \<and> reconnectAttempts (onopen 6 (connect exhausted_client)) = 0"
proof -
  have h: "reconnectAttempts first_retry_pending = 1 \<and> timers first_retry_pending = [1000]
     \<and> \<not> urlRejected first_retry_pending
     \<and> length five_failures = 5 \<and> (\<forall>a \<in> set five_failures. snd a \<noteq> 1000)"
    by (simp add: first_retry_pending_facts five_failures_def)
  have e: "error (connectionStatus exhausted_client) = None"
    by (simp add: exhausted_client_def first_retry_pending_def five_failures_def eval_defs Let_def)
  from retries_stop_after_five_failed_attempts
         [of first_retry_pending 1000 five_failures 1006 6 exhausted_client, THEN mp, OF h]
  show ?thesis using h e
    by (simp add: first_retry_pending_facts exhausted_client_def list_all_iff)
qed

text \<open>
  C1 as stated fails: after the five failed retries the status carries no error, and an
  explicit \<open>connect()\<close> does not reset the counter, so that its failure is not retried.
\<close>

theorem terminal_status_has_no_error_and_connect_keeps_counter:
  "reconnectAttempts exhausted_client = 5
   \<and> timers exhausted_client = []
   \<and> error (connectionStatus exhausted_client) = None
   \<and> reconnectAttempts (step CallConnect exhausted_client) = 5
   \<and> timers (run [CallConnect, SockError 6, SockClose 6 1006] exhausted_client) = []"
  by (simp add: exhausted_client_def first_retry_pending_def five_failures_def eval_defs Let_def)

section \<open>The status invariant\<close>

lemma status_ok_literals:
  "status_ok \<lparr>connected = False, reconnecting = r, error = e\<rparr>"
  "status_ok \<lparr>connected = b, reconnecting = False, error = e\<rparr>"
  by (simp_all add: status_ok_def)

lemma status_ok_connect: "status_ok (connectionStatus (connect c))"
  by (simp add: connect_def Let_def status_ok_literals)

lemma status_ok_onopen: "status_ok (connectionStatus (onopen i c))"
  by (simp add: onopen_def status_ok_literals)

lemma status_ok_attemptReconnect: "status_ok (connectionStatus (attemptReconnect c))"
  by (simp add: attemptReconnect_def Let_def status_ok_literals)

lemma status_ok_onclose: "status_ok (connectionStatus (onclose code c))"
  by (simp add: onclose_def Let_def status_ok_literals status_ok_attemptReconnect)

lemma status_ok_onerror: "status_ok (connectionStatus (onerror i c))"
  by (simp add: onerror_def status_ok_literals)

lemma status_ok_disconnect: "status_ok (connectionStatus (disconnect c))"
  by (simp add: disconnect_simps status_ok_literals)

lemma status_send: "connectionStatus (send f c) = connectionStatus c"
  by (simp add: send_def split: option.splits)

lemma status_onmessage: "connectionStatus (onmessage p c) = connectionStatus c"
  by (simp add: onmessage_def handleMessage_def Let_def split: option.splits)

lemma status_ok_step:
  "status_ok (connectionStatus c) \<Longrightarrow> status_ok (connectionStatus (step e c))"
  by (cases e)
     (simp_all add: status_ok_connect status_ok_onopen status_ok_onclose status_ok_onerror
        status_ok_disconnect status_send status_onmessage fire_timer_def)

lemma status_ok_run:
  "status_ok (connectionStatus c) \<Longrightarrow> status_ok (connectionStatus (run es c))"
  by (induction es arbitrary: c) (simp_all add: status_ok_step)

lemma status_ok_ar_step:
  "status_ok (connectionStatus c) \<Longrightarrow> status_ok (connectionStatus (ar_step e c))"
proof (cases e)
  case (Base b)
  assume ok: "status_ok (connectionStatus c)"
  show ?thesis
  proof (cases b)
    case CallConnect
    then show ?thesis using Base by (simp add: ar_connect_def status_ok_connect)
  next
    case CallDisconnect
    then show ?thesis using Base by (simp add: ar_disconnect_def status_ok_disconnect)
  next
    case (SockOpen i)
    then show ?thesis using Base ok
      by (simp add: ar_onopen_def Let_def startPing_def stopPing_def status_ok_onopen
            split: option.splits)
  next
    case (TimerFire k)
    then show ?thesis using Base ok by (simp add: ar_connect_def status_ok_connect)
  next
    case (CallSend f)
    then show ?thesis using Base status_ok_step [OF ok, of b] by simp
  next
    case (SockMessage i p)
    then show ?thesis using Base status_ok_step [OF ok, of b] by simp
  next
    case (SockError i)
    then show ?thesis using Base status_ok_step [OF ok, of b] by simp
  next
    case (SockClose i code)
    then show ?thesis using Base status_ok_step [OF ok, of b] by simp
  qed
next
  case (PingTick now)
  assume "status_ok (connectionStatus c)"
  then show ?thesis using PingTick by (simp add: ping_tick_def ping_def status_send)
next
  case (CallPing now)
  assume "status_ok (connectionStatus c)"
  then show ?thesis using CallPing by (simp add: ping_def status_send)
qed

lemma status_ok_ar_run:
  "status_ok (connectionStatus c) \<Longrightarrow> status_ok (connectionStatus (ar_run es c))"
  by (induction es arbitrary: c) (simp_all add: status_ok_ar_step)

text \<open>
  C7. In every state a new client, plain or with heartbeat, reaches by any sequence of
  calls and callbacks, \<open>connected\<close> and \<open>reconnecting\<close> are not both true; and from any state
  in which they are not both true, every run keeps them so.
\<close>

theorem never_connected_and_reconnecting:
  "\<not> (connected (connectionStatus (run es (WebSocketClient_new u r w)))
        \<and> reconnecting (connectionStatus (run es (WebSocketClient_new u r w))))
   \<and> \<not> (connected (connectionStatus (ar_run aes (AutoReconnectWebSocket_new u r w)))
        \<and> reconnecting (connectionStatus (ar_run aes (AutoReconnectWebSocket_new u r w))))
   \<and> (status_ok (connectionStatus c) \<longrightarrow> status_ok (connectionStatus (run es' c)))
   \<and> (status_ok (connectionStatus a) \<longrightarrow> status_ok (connectionStatus (ar_run aes' a)))"
proof -
  have "status_ok (connectionStatus (WebSocketClient_new u r w))"
    by (simp add: WebSocketClient_new_def status_ok_def)
  then have 1: "status_ok (connectionStatus (run es (WebSocketClient_new u r w)))"
    by (rule status_ok_run)
  have "status_ok (connectionStatus (AutoReconnectWebSocket_new u r w))"
    by (simp add: AutoReconnectWebSocket_new_def WebSocketClient_new_def status_ok_def
          WebSocketClient.extend_def)
  then have 2: "status_ok (connectionStatus (ar_run aes (AutoReconnectWebSocket_new u r w)))"
    by (rule status_ok_ar_run)
  have 3: "status_ok (connectionStatus c) \<longrightarrow> status_ok (connectionStatus (run es' c))"
    using status_ok_run by blast
  have 4: "status_ok (connectionStatus a) \<longrightarrow> status_ok (connectionStatus (ar_run aes' a))"
    using status_ok_ar_run by blast
  from 1 2 3 4 show ?thesis
    unfolding status_ok_def by blast
qed

text \<open>
C7 at a concrete input: a connected client whose socket drops and whose retry starts.
\<close>

theorem never_connected_and_reconnecting_witness:
  "status_ok (connectionStatus connected_client)
   \<and> status_ok (connectionStatus (run [SockClose 0 1006, TimerFire 0] connected_client))
   \<and> connectionStatus (run [SockClose 0 1006, TimerFire 0] connected_client)
       = \<lparr>connected = False, reconnecting = True, error = None\<rparr>"
proof -
  have h: "status_ok (connectionStatus connected_client)"
    by (simp add: connected_client_def eval_defs Let_def status_ok_def)
  have v: "connectionStatus (run [SockClose 0 1006, TimerFire 0] connected_client)
       = \<lparr>connected = False, reconnecting = True, error = None\<rparr>"
    by (simp add: connected_client_def eval_defs Let_def)
  from never_connected_and_reconnecting [of "[]" console_url False "()" "[]" connected_client
         "[SockClose 0 1006, TimerFire 0]"]
  have "status_ok (connectionStatus connected_client) \<longrightarrow>
          status_ok (connectionStatus (run [SockClose 0 1006, TimerFire 0] connected_client))"
    by blast
  with h have "status_ok (connectionStatus (run [SockClose 0 1006, TimerFire 0] connected_client))"
    by blast
  with h v show ?thesis by blast
qed

section \<open>The heartbeat\<close>

lemma sent_settle: "map sent (sockets (settle i p c)) = map sent (sockets c)"
  by (simp add: settle_def map_update map_update_same)

lemma sent_set_readyState: "map sent (sockets (set_readyState i r c)) = map sent (sockets c)"
  by (simp add: set_readyState_def map_update map_update_same)

lemma ws_set_readyState: "ws (set_readyState i r c) = ws c"
  by (simp add: set_readyState_def)

lemma attemptReconnect_keeps:
  "ws (attemptReconnect c) = ws c" "sockets (attemptReconnect c) = sockets c"
  by (simp_all add: attemptReconnect_def Let_def)

lemma onclose_keeps:
  "ws (onclose code c) = ws c" "sockets (onclose code c) = sockets c"
  by (simp_all add: onclose_def Let_def attemptReconnect_keeps)

lemma onopen_keeps:
  "ws (onopen i c) = ws c" "map sent (sockets (onopen i c)) = map sent (sockets c)"
  by (simp_all add: onopen_def sent_settle)

lemma onerror_keeps:
  "ws (onerror i c) = ws c" "map sent (sockets (onerror i c)) = map sent (sockets c)"
  by (simp_all add: onerror_def sent_settle)

lemma onmessage_keeps:
  "ws (onmessage p c) = ws c" "sockets (onmessage p c) = sockets c"
  by (simp_all add: onmessage_def handleMessage_def Let_def split: option.splits)

lemma send_no_socket:
  "ws c = None \<Longrightarrow> ws (send f c) = None \<and> sockets (send f c) = sockets c"
  by (simp add: send_def)

lemma ping_timer_keeps:
  "ws (stopPing c) = ws c" "sockets (stopPing c) = sockets c"
  "ws (startPing c) = ws c" "sockets (startPing c) = sockets c"
  "connectionStatus (stopPing c) = connectionStatus c"
  "connectionStatus (startPing c) = connectionStatus c"
  by (simp_all add: startPing_def stopPing_def split: option.splits)

lemma step_no_socket:
  assumes "ws c = None" and "e \<noteq> CallConnect" and "\<forall>k. e \<noteq> TimerFire k"
  shows "ws (step e c) = None \<and> map sent (sockets (step e c)) = map sent (sockets c)"
  using assms
  by (cases e)
     (simp_all add: disconnect_simps send_no_socket onopen_keeps onerror_keeps onclose_keeps
        onmessage_keeps sent_set_readyState ws_set_readyState)

lemma ar_step_no_socket:
  assumes "ws c = None" and "\<not> runs_connect e"
  shows "ws (ar_step e c) = None \<and> map sent (sockets (ar_step e c)) = map sent (sockets c)"
proof (cases e)
  case (Base b)
  show ?thesis
  proof (cases b)
    case CallConnect
    then show ?thesis using assms Base by simp
  next
    case CallDisconnect
    then show ?thesis using Base by (simp add: ar_disconnect_def disconnect_simps ping_timer_keeps)
  next
    case (SockOpen i)
    then show ?thesis using assms Base
      by (simp add: ar_onopen_def Let_def ping_timer_keeps onopen_keeps sent_set_readyState
            ws_set_readyState)
  next
    case (TimerFire k)
    then show ?thesis using assms Base by simp
  next
    case (CallSend f)
    then show ?thesis using Base step_no_socket [OF assms(1), of b] by simp
  next
    case (SockMessage i p)
    then show ?thesis using Base step_no_socket [OF assms(1), of b] by simp
  next
    case (SockError i)
    then show ?thesis using Base step_no_socket [OF assms(1), of b] by simp
  next
    case (SockClose i code)
    then show ?thesis using Base step_no_socket [OF assms(1), of b] by simp
  qed
next
  case (PingTick now)
  then show ?thesis using assms by (simp add: ping_tick_def ping_def send_no_socket)
next
  case (CallPing now)
  then show ?thesis using assms by (simp add: ping_def send_no_socket)
qed

lemma ar_run_no_socket:
  "ws c = None \<Longrightarrow> \<forall>e \<in> set es. \<not> runs_connect e \<Longrightarrow>
     ws (ar_run es c) = None \<and> map sent (sockets (ar_run es c)) = map sent (sockets c)"
proof (induction es arbitrary: c)
  case Nil
  then show ?case by simp
next
  case (Cons e es)
  have e: "\<not> runs_connect e" using Cons.prems(2) by simp
  note s = ar_step_no_socket [OF Cons.prems(1) e]
  have "ws (ar_run es (ar_step e c)) = None
        \<and> map sent (sockets (ar_run es (ar_step e c))) = map sent (sockets (ar_step e c))"
    using Cons.IH [of "ar_step e c"] s Cons.prems(2) by simp
  then show ?case using s by simp
qed

lemma ar_disconnect_facts:
  "ws (ar_disconnect c) = None"
  "pingInterval (ar_disconnect c) = None"
  "\<not> isConnected (ar_disconnect c)"
  "map sent (sockets (ar_disconnect c)) = map sent (sockets c)"
  by (simp_all add: ar_disconnect_def disconnect_simps isConnected_def ping_timer_keeps,
      simp add: disconnect_def stopPing_def split: option.splits)

text \<open>
  What the wrapper does guarantee: the interval starts when the promise of a \<open>connect()\<close>
  call resolves; its callback sends a ping only while connected; \<open>disconnect()\<close> clears the
  interval, and no frame is sent afterwards as long as \<open>connect()\<close> does not run again.
\<close>

lemma ar_onopen_starts:
  "i < length (sockets c) \<Longrightarrow> promise (sockets c ! i) = Pending \<Longrightarrow>
     pingInterval (ar_onopen i c) = Some pingIntervalMs"
  by (simp add: ar_onopen_def Let_def startPing_def)

lemma ping_tick_facts:
  "\<not> isConnected c \<Longrightarrow> ping_tick now c = c"
  "isConnected c \<Longrightarrow> ws c = Some j \<Longrightarrow> j < length (sockets c) \<Longrightarrow>
     readyState (sockets c ! j) = OPEN \<Longrightarrow>
     sent (sockets (ping_tick now c) ! j) = sent (sockets c ! j) @ [PingFrame now]"
  by (simp_all add: ping_tick_def ping_def send_def)

lemma no_frame_until_connect_runs_again:
  "\<forall>e \<in> set es. \<not> runs_connect e \<Longrightarrow>
     map sent (sockets (ar_run es (ar_disconnect c))) = map sent (sockets c)"
  using ar_run_no_socket [OF ar_disconnect_facts(1), of es c] by (simp add: ar_disconnect_facts)

text \<open>
  C9. The claim that no ping is ever sent after \<open>disconnect()\<close> fails on this run: the
  connection drops with code 1006, which schedules a retry in 1000 ms; \<open>disconnect()\<close> is
  called and clears the interval, but the retry stays pending; it fires, its socket opens,
  the interval starts again and the next tick sends a ping.
\<close>

theorem ping_sent_after_disconnect:
  "timers (ar_run until_disconnect (AutoReconnectWebSocket_new console_url False ())) = [1000]
   \<and> pingInterval (ar_run until_disconnect (AutoReconnectWebSocket_new console_url False ())) = None
   \<and> map close_calls (sockets (ar_run until_disconnect (AutoReconnectWebSocket_new console_url False ())))
       = [[(1000, ''Manual disconnect'')]]
   \<and> map sent (sockets (ar_run reconnect_after_disconnect (AutoReconnectWebSocket_new console_url False ())))
       = [[], [PingFrame ''t2'']]
   \<and> pingInterval (ar_run reconnect_after_disconnect (AutoReconnectWebSocket_new console_url False ()))
       = Some 30000"
  by (simp add: reconnect_after_disconnect_def until_disconnect_def eval_defs Let_def)

end
